theory Spec2Isabelle
  imports Complex_Main
begin

section \<open>JavaScript values used by the two stores\<close>

text \<open>
  A field declared \<open>number\<close> holds a double at run time, and the stores read such a field
  in one way only: they test its truthiness in \<open>x || 0\<close> and copy it. The values that
  matter are therefore the absent field (\<open>undefined\<close>), \<open>NaN\<close> and the proper numbers;
  \<open>0\<close> and \<open>-0\<close> are both \<open>Num 0\<close> (they are \<open>===\<close>-equal and both falsy).
\<close>

datatype number = Undefined | NaN | Num real

fun truthy :: "number \<Rightarrow> bool" where
  "truthy Undefined = False"
| "truthy NaN = False"
| "truthy (Num r) = (r \<noteq> 0)"

text \<open>\<open>a || b\<close> on numbers.\<close>

definition or_number :: "number \<Rightarrow> number \<Rightarrow> number" where
  "or_number a b = (if truthy a then a else b)"

text \<open>
  An optional string field (\<open>createdBy?: string\<close>) is \<open>None\<close> when absent; the empty
  string is falsy as well. \<open>a || b\<close> with a string literal on the right:
\<close>

definition or_string :: "string option \<Rightarrow> string \<Rightarrow> string" where
  "or_string a b = (case a of None \<Rightarrow> b | Some s \<Rightarrow> if s = [] then b else s)"

text \<open>An optional boolean field (\<open>saleCreated?: boolean\<close>) in a condition.\<close>

fun truthy_bool :: "bool option \<Rightarrow> bool" where
  "truthy_bool None = False"
| "truthy_bool (Some b) = b"

text \<open>
  The template literals \<open>`SALE-${Date.now()}`\<close> and \<open>`ORD-${Date.now()}`\<close> print the
  clock reading, a non-negative integer, in decimal.
\<close>

definition digit_char :: "nat \<Rightarrow> char" where
  "digit_char d =
     (if d = 0 then CHR ''0'' else if d = 1 then CHR ''1'' else if d = 2 then CHR ''2''
      else if d = 3 then CHR ''3'' else if d = 4 then CHR ''4'' else if d = 5 then CHR ''5''
      else if d = 6 then CHR ''6'' else if d = 7 then CHR ''7'' else if d = 8 then CHR ''8''
      else CHR ''9'')"

fun string_of_nat :: "nat \<Rightarrow> string" where
  "string_of_nat n =
     (if n < 10 then [digit_char n] else string_of_nat (n div 10) @ [digit_char (n mod 10)])"

declare string_of_nat.simps [simp del]

section \<open>Data model\<close>

text \<open>\<open>SaleItem\<close> and \<open>OrderItem\<close> have the same shape; an order's items are handed to
  the sales store as they are.\<close>

record item =
  productId :: string
  quantity :: number
  price :: number

record sale =
  sale_id :: string
  sale_items :: "item list"
  sale_subtotal :: number
  sale_total :: number
  sale_discount :: number
  sale_paymentReceived :: number
  sale_change :: number
  sale_date :: string
  sale_cashier :: string
  sale_storeLocation :: string

text \<open>
  The argument of \<open>addSale\<close>, declared \<open>Omit<Sale, 'id' | 'date'>\<close>. The object that
  \<open>createSaleFromOrder\<close> passes carries a \<open>date\<close> property on top, so the field is
  optional here. The type of \<open>items\<close> is a parameter: \<open>sale_data\<close> is a record of the
  declared type, with an array of items; \<open>sale_payload\<close> is the object that
  \<open>createSaleFromOrder\<close> builds, whose \<open>items\<close> is whatever \<open>order.items\<close> holds at
  run time, \<open>undefined\<close> (\<open>None\<close>) included.
\<close>

record 'i sale_data_of =
  data_items :: 'i
  data_subtotal :: number
  data_total :: number
  data_discount :: number
  data_paymentReceived :: number
  data_change :: number
  data_cashier :: string
  data_storeLocation :: string
  data_date :: "string option"

type_synonym sale_data = "item list sale_data_of"

type_synonym sale_payload = "item list option sale_data_of"

datatype status = Pending | Processing | Completed | Cancelled

datatype paymentMethod = Cash | Card | Mobile | Bank_transfer

text \<open>
  \<open>items\<close> is declared an array. An update may carry the key \<open>items\<close> with the value
  \<open>undefined\<close> (\<open>Partial<Order>\<close> allows it), and the merge then stores that, so the
  field of a stored order is an array (\<open>Some\<close>) or \<open>undefined\<close> (\<open>None\<close>).
\<close>

record order =
  order_id :: string
  order_customerName :: string
  order_contactNumber :: string
  order_email :: string
  order_deliveryAddress :: string
  order_items :: "item list option"
  order_subtotal :: number
  order_total :: number
  order_discount :: number
  order_status :: status
  order_paymentMethod :: paymentMethod
  order_orderDate :: string
  order_notes :: "string option"
  order_createdBy :: "string option"
  order_finalAmount :: number
  order_advancePayment :: number
  order_saleCreated :: "bool option"

text \<open>
  \<open>Partial<Order>\<close>: every key is either absent (\<open>None\<close>) or present with a value of the
  field's type; for \<open>items\<close>, the number fields and the optional fields that value may
  be \<open>undefined\<close>.
\<close>

record updates =
  upd_id :: "string option"
  upd_customerName :: "string option"
  upd_contactNumber :: "string option"
  upd_email :: "string option"
  upd_deliveryAddress :: "string option"
  upd_items :: "item list option option"
  upd_subtotal :: "number option"
  upd_total :: "number option"
  upd_discount :: "number option"
  upd_status :: "status option"
  upd_paymentMethod :: "paymentMethod option"
  upd_orderDate :: "string option"
  upd_notes :: "string option option"
  upd_createdBy :: "string option option"
  upd_finalAmount :: "number option"
  upd_advancePayment :: "number option"
  upd_saleCreated :: "bool option option"

text \<open>
  An entry of the activity log is the triple handed to \<open>logActivity\<close>: actor, event type
  and message. A message is a template literal around an order id (and, for a status
  change, the old and the new status); it is kept as the template's name and arguments.
\<close>

datatype event_type = ORDER_CREATED | ORDER_STATUS_UPDATED | SALE_CREATED_FROM_ORDER | ORDER_DELETED

datatype message =
    Nouvelle_commande string
  | Statut_mis_a_jour string status status
  | Vente_creee string
  | Commande_supprimee string

type_synonym log_entry = "string \<times> event_type \<times> message"

text \<open>
  What a call reads from its environment: \<open>Date.now()\<close>, \<open>new Date().toISOString()\<close>,
  and whether the \<open>localStorage\<close> call it makes succeeds (it throws when the quota is
  exceeded or storage is disabled).
\<close>

record env =
  date_now :: nat
  iso_string :: string
  storage_ok :: bool

text \<open>
  The state of both providers. \<open>sales\<close> and \<open>orders\<close> are the React states: the value
  that the next updater handed to \<open>setSales\<close>/\<open>setOrders\<close> receives as \<open>prev\<close>.
  Updaters run once each, in the order they were queued, so a queued updater is applied to
  the state at once. \<open>stored_sales\<close> is the value under the key \<open>sales\<close> of
  \<open>localStorage\<close> (the list rather than its JSON text). \<open>timers\<close> are the pending
  \<open>setTimeout(\<dots>, 0)\<close> callbacks, oldest first; each is \<open>createSaleFromOrder\<close> applied
  to the order snapshot it closed over.
\<close>

record store =
  sales :: "sale list"
  stored_sales :: "sale list option"
  orders :: "order list"
  saleCreationInProgress :: "string set"
  timers :: "order list"
  activity :: "log_entry list"

text \<open>
  Modelled from the spec: \<open>logActivity\<close> comes from the user context, which is not among
  these files. The spec gives its contract: \<open>logActivity(actor, eventType, message)\<close>
  records the triple, returns nothing, is fire-and-forget, and its failures are not
  surfaced to the order store. The model keeps the calls made, in order.
\<close>

definition logActivity :: "string \<Rightarrow> event_type \<Rightarrow> message \<Rightarrow> store \<Rightarrow> store" where
  "logActivity who ev msg s = s\<lparr>activity := activity s @ [(who, ev, msg)]\<rparr>"

section \<open>Sales store\<close>

definition default_item :: "item \<Rightarrow> item" where
  "default_item it =
     it\<lparr>quantity := or_number (quantity it) (Num 0), price := or_number (price it) (Num 0)\<rparr>"

definition newSale :: "env \<Rightarrow> sale_data \<Rightarrow> sale" where
  "newSale e saleData =
     \<lparr>sale_id = ''SALE-'' @ string_of_nat (date_now e),
      sale_items = map default_item (data_items saleData),
      sale_subtotal = or_number (data_subtotal saleData) (Num 0),
      sale_total = or_number (data_total saleData) (Num 0),
      sale_discount = or_number (data_discount saleData) (Num 0),
      sale_paymentReceived = or_number (data_paymentReceived saleData) (Num 0),
      sale_change = or_number (data_change saleData) (Num 0),
      sale_date = iso_string e,
      sale_cashier = data_cashier saleData,
      sale_storeLocation = data_storeLocation saleData\<rparr>"

text \<open>
  \<open>addSale\<close>: the new record is appended, then the whole sequence is written to
  \<open>localStorage\<close>; a failing write is caught and logged to the console, and the appended
  sequence is returned all the same. On a record of the declared type nothing in the outer
  \<open>try\<close> block can throw.
\<close>

definition addSale :: "env \<Rightarrow> sale_data \<Rightarrow> store \<Rightarrow> store" where
  "addSale e saleData s =
     (let updatedSales = sales s @ [newSale e saleData]
      in s\<lparr>sales := updatedSales,
            stored_sales := (if storage_ok e then Some updatedSales else stored_sales s)\<rparr>)"

text \<open>The same object with another value under \<open>items\<close>.\<close>

definition with_items :: "'i sale_data_of \<Rightarrow> 'j \<Rightarrow> 'j sale_data_of" where
  "with_items saleData its =
     \<lparr>data_items = its,
      data_subtotal = data_subtotal saleData,
      data_total = data_total saleData,
      data_discount = data_discount saleData,
      data_paymentReceived = data_paymentReceived saleData,
      data_change = data_change saleData,
      data_cashier = data_cashier saleData,
      data_storeLocation = data_storeLocation saleData,
      data_date = data_date saleData\<rparr>"

text \<open>
  \<open>addSale\<close> on the object \<open>createSaleFromOrder\<close> hands it. When \<open>items\<close> is
  \<open>undefined\<close>, \<open>saleData.items.map\<close> throws inside the outer \<open>try\<close> block before
  \<open>setSales\<close> is reached; the \<open>catch\<close> logs to the console and \<open>addSale\<close> returns,
  with nothing stored. Otherwise the object is a record of the declared type.
\<close>

definition addSale_payload :: "env \<Rightarrow> sale_payload \<Rightarrow> store \<Rightarrow> store" where
  "addSale_payload e saleData s =
     (case data_items saleData of
        None \<Rightarrow> s
      | Some its \<Rightarrow> addSale e (with_items saleData its) s)"

text \<open>\<open>getSaleById\<close> reads the \<open>sales\<close> of the render it was created in.\<close>

definition getSaleById :: "sale list \<Rightarrow> string \<Rightarrow> sale option" where
  "getSaleById ss i = find (\<lambda>sale. sale_id sale = i) ss"

definition clearSales :: "env \<Rightarrow> store \<Rightarrow> store" where
  "clearSales e s =
     s\<lparr>sales := [], stored_sales := (if storage_ok e then None else stored_sales s)\<rparr>"

section \<open>Order store\<close>

definition addOrder :: "env \<Rightarrow> order \<Rightarrow> store \<Rightarrow> store" where
  "addOrder e orderData s =
     (let newOrder = orderData\<lparr>order_id := ''ORD-'' @ string_of_nat (date_now e),
                                order_orderDate := iso_string e,
                                order_saleCreated := Some False\<rparr>
      in logActivity (or_string (order_createdBy newOrder) ''system'') ORDER_CREATED
           (Nouvelle_commande (order_id newOrder))
           (s\<lparr>orders := orders s @ [newOrder]\<rparr>))"

text \<open>The object literal of \<open>createSaleFromOrder\<close>.\<close>

definition sale_of_order :: "env \<Rightarrow> order \<Rightarrow> sale_payload" where
  "sale_of_order e ord =
     \<lparr>data_items = order_items ord,
      data_subtotal = order_total ord,
      data_total = order_finalAmount ord,
      data_discount = or_number (order_discount ord) (Num 0),
      data_paymentReceived = or_number (order_advancePayment ord) (order_finalAmount ord),
      data_change = Num 0,
      data_cashier = or_string (order_createdBy ord) ''System'',
      data_storeLocation = ''UP2DATE FASHION'',
      data_date = Some (iso_string e)\<rparr>"

definition mark_saleCreated :: "string \<Rightarrow> order \<Rightarrow> order" where
  "mark_saleCreated i ord = (if order_id ord = i then ord\<lparr>order_saleCreated := Some True\<rparr> else ord)"

definition createSaleFromOrder :: "env \<Rightarrow> order \<Rightarrow> store \<Rightarrow> store" where
  "createSaleFromOrder e ord s =
     (if order_id ord \<in> saleCreationInProgress s then s
      else
        let s1 = s\<lparr>saleCreationInProgress := insert (order_id ord) (saleCreationInProgress s)\<rparr>;
            s2 = addSale_payload e (sale_of_order e ord) s1;
            s3 = logActivity (or_string (order_createdBy ord) ''system'') SALE_CREATED_FROM_ORDER
                   (Vente_creee (order_id ord)) s2;
            s4 = s3\<lparr>orders := map (mark_saleCreated (order_id ord)) (orders s3)\<rparr>
        in s4\<lparr>saleCreationInProgress := saleCreationInProgress s4 - {order_id ord}\<rparr>)"

text \<open>\<open>{ ...order, ...updates }\<close>: a key present in \<open>updates\<close> overwrites.\<close>

definition overwrite :: "'a option \<Rightarrow> 'a \<Rightarrow> 'a" where
  "overwrite upd old = (case upd of None \<Rightarrow> old | Some v \<Rightarrow> v)"

definition merge_order :: "order \<Rightarrow> updates \<Rightarrow> order" where
  "merge_order ord u =
     \<lparr>order_id = overwrite (upd_id u) (order_id ord),
      order_customerName = overwrite (upd_customerName u) (order_customerName ord),
      order_contactNumber = overwrite (upd_contactNumber u) (order_contactNumber ord),
      order_email = overwrite (upd_email u) (order_email ord),
      order_deliveryAddress = overwrite (upd_deliveryAddress u) (order_deliveryAddress ord),
      order_items = overwrite (upd_items u) (order_items ord),
      order_subtotal = overwrite (upd_subtotal u) (order_subtotal ord),
      order_total = overwrite (upd_total u) (order_total ord),
      order_discount = overwrite (upd_discount u) (order_discount ord),
      order_status = overwrite (upd_status u) (order_status ord),
      order_paymentMethod = overwrite (upd_paymentMethod u) (order_paymentMethod ord),
      order_orderDate = overwrite (upd_orderDate u) (order_orderDate ord),
      order_notes = overwrite (upd_notes u) (order_notes ord),
      order_createdBy = overwrite (upd_createdBy u) (order_createdBy ord),
      order_finalAmount = overwrite (upd_finalAmount u) (order_finalAmount ord),
      order_advancePayment = overwrite (upd_advancePayment u) (order_advancePayment ord),
      order_saleCreated = overwrite (upd_saleCreated u) (order_saleCreated ord)\<rparr>"

text \<open>
  The body of the \<open>prev.map\<close> callback of \<open>updateOrder\<close> on one order: the order it
  returns, the calls to \<open>logActivity\<close> it makes and the timers it sets.
\<close>

definition update_one :: "string \<Rightarrow> updates \<Rightarrow> order \<Rightarrow> order \<times> log_entry list \<times> order list" where
  "update_one i u ord =
     (if order_id ord = i then
        let updatedOrder = merge_order ord u in
        (case upd_status u of
           None \<Rightarrow> (updatedOrder, [], [])
         | Some st \<Rightarrow>
             if st \<noteq> order_status ord then
               (updatedOrder,
                [(or_string (order_createdBy ord) ''system'', ORDER_STATUS_UPDATED,
                  Statut_mis_a_jour (order_id ord) (order_status ord) st)],
                if st = Completed \<and> \<not> truthy_bool (order_saleCreated ord)
                then [updatedOrder] else [])
             else (updatedOrder, [], []))
      else (ord, [], []))"

definition updateOrder :: "string \<Rightarrow> updates \<Rightarrow> store \<Rightarrow> store" where
  "updateOrder i u s =
     (let rs = map (update_one i u) (orders s)
      in s\<lparr>orders := map fst rs,
            activity := activity s @ concat (map (fst \<circ> snd) rs),
            timers := timers s @ concat (map (snd \<circ> snd) rs)\<rparr>)"

text \<open>
  \<open>deleteOrder\<close> looks the order up in \<open>orders\<close>, the sequence of the render the callback
  was created in (its first argument here), and removes from \<open>prev\<close>.
\<close>

definition deleteOrder :: "order list \<Rightarrow> string \<Rightarrow> store \<Rightarrow> store" where
  "deleteOrder rendered i s =
     (let s1 = (case find (\<lambda>o'. order_id o' = i) rendered of
                  Some ord \<Rightarrow>
                    logActivity (or_string (order_createdBy ord) ''system'') ORDER_DELETED
                      (Commande_supprimee (order_id ord)) s
                | None \<Rightarrow> s)
      in s1\<lparr>orders := filter (\<lambda>ord. order_id ord \<noteq> i) (orders s1)\<rparr>)"

definition getOrderById :: "order list \<Rightarrow> string \<Rightarrow> order option" where
  "getOrderById rendered i = find (\<lambda>ord. order_id ord = i) rendered"

text \<open>The event loop runs the oldest pending timer.\<close>

definition run_timer :: "env \<Rightarrow> store \<Rightarrow> store" where
  "run_timer e s =
     (case timers s of
        [] \<Rightarrow> s
      | ord # rest \<Rightarrow> createSaleFromOrder e ord (s\<lparr>timers := rest\<rparr>))"


section \<open>Sequences of calls and sample data\<close>

text \<open>A run of \<open>addSale\<close> calls, each with the environment it reads; and the event loop
  running the oldest pending timers one after the other, one for each environment.\<close>

fun addSales :: "(env \<times> sale_data) list \<Rightarrow> store \<Rightarrow> store" where
  "addSales [] s = s"
| "addSales ((e, d) # calls) s = addSales calls (addSale e d s)"


text \<open>An environment whose clock reads \<open>t\<close> milliseconds and whose storage works; the
  rendering of the date stands for the one \<open>toISOString\<close> gives.\<close>

definition at_ms :: "nat \<Rightarrow> env" where
  "at_ms t = \<lparr>date_now = t, iso_string = ''T+'' @ string_of_nat t, storage_ok = True\<rparr>"

definition no_updates :: updates where
  "no_updates =
     \<lparr>upd_id = None, upd_customerName = None, upd_contactNumber = None, upd_email = None,
      upd_deliveryAddress = None, upd_items = None, upd_subtotal = None, upd_total = None,
      upd_discount = None, upd_status = None, upd_paymentMethod = None, upd_orderDate = None,
      upd_notes = None, upd_createdBy = None, upd_finalAmount = None,
      upd_advancePayment = None, upd_saleCreated = None\<rparr>"

definition set_status :: "status \<Rightarrow> updates" where
  "set_status st = no_updates\<lparr>upd_status := Some st\<rparr>"

text \<open>The order of the spec's example: two items at 10, a discount of 2, no advance.\<close>

definition order_A :: order where
  "order_A =
     \<lparr>order_id = ''ORD-5'', order_customerName = ''A'', order_contactNumber = ''555'',
      order_email = ''a@example.org'', order_deliveryAddress = ''1 Main St'',
      order_items = Some [\<lparr>productId = ''p1'', quantity = Num 2, price = Num 10\<rparr>],
      order_subtotal = Num 20, order_total = Num 20, order_discount = Num 2,
      order_status = Pending, order_paymentMethod = Cash,
      order_orderDate = ''T+5'', order_notes = None, order_createdBy = None,
      order_finalAmount = Num 18, order_advancePayment = Num 0,
      order_saleCreated = Some False\<rparr>"

definition empty_store :: store where
  "empty_store =
     \<lparr>sales = [], stored_sales = None, orders = [], saleCreationInProgress = {},
      timers = [], activity = []\<rparr>"

definition store_A :: store where
  "store_A = empty_store\<lparr>orders := [order_A]\<rparr>"

definition sale_data_A :: sale_data where
  "sale_data_A =
     \<lparr>data_items = [\<lparr>productId = ''p1'', quantity = Num 2, price = NaN\<rparr>],
      data_subtotal = Num 20, data_total = Num 18, data_discount = Undefined,
      data_paymentReceived = NaN, data_change = Num 0, data_cashier = ''Ann'',
      data_storeLocation = ''UP2DATE FASHION'', data_date = None\<rparr>"

section \<open>Helper facts\<close>

lemmas sample_defs = at_ms_def no_updates_def set_status_def order_A_def empty_store_def
  store_A_def sale_data_A_def

lemmas store_defs = updateOrder_def update_one_def merge_order_def overwrite_def
  run_timer_def createSaleFromOrder_def addSale_def newSale_def sale_of_order_def
  logActivity_def mark_saleCreated_def or_number_def or_string_def default_item_def
  addOrder_def deleteOrder_def getOrderById_def getSaleById_def clearSales_def
  addSale_payload_def with_items_def

lemma digit_char_inj: "a < 10 \<Longrightarrow> b < 10 \<Longrightarrow> digit_char a = digit_char b \<Longrightarrow> a = b"
  unfolding digit_char_def by (simp split: if_splits; arith)

lemma string_of_nat_snoc:
  "string_of_nat n = (if n < 10 then [] else string_of_nat (n div 10)) @ [digit_char (n mod 10)]"
  by (subst string_of_nat.simps) simp

lemma string_of_nat_nonempty: "string_of_nat n \<noteq> []"
  by (subst string_of_nat_snoc) simp

text \<open>Two clock readings print alike only if they are the same reading.\<close>

lemma string_of_nat_inj: "string_of_nat m = string_of_nat n \<Longrightarrow> m = n"
proof (induction m arbitrary: n rule: less_induct)
  case (less m)
  let ?pm = "if m < 10 then [] else string_of_nat (m div 10)"
  let ?pn = "if n < 10 then [] else string_of_nat (n div 10)"
  have "?pm @ [digit_char (m mod 10)] = ?pn @ [digit_char (n mod 10)]"
    using less.prems string_of_nat_snoc [of m] string_of_nat_snoc [of n] by simp
  then have pre: "?pm = ?pn" and dig: "digit_char (m mod 10) = digit_char (n mod 10)"
    by simp_all
  have md: "m mod 10 = n mod 10"
    using dig by (intro digit_char_inj) simp_all
  have dv: "m div 10 = n div 10"
  proof (cases "m < 10")
    case True
    then have "n < 10"
      using pre string_of_nat_nonempty [of "n div 10"] by (auto split: if_splits)
    with True show ?thesis by simp
  next
    case False
    then have "\<not> n < 10"
      using pre string_of_nat_nonempty [of "m div 10"] by (auto split: if_splits)
    with False pre have "string_of_nat (m div 10) = string_of_nat (n div 10)" by simp
    moreover have "m div 10 < m" using False by simp
    ultimately show ?thesis using less.IH by blast
  qed
  show ?case using md dv by (metis div_mult_mod_eq)
qed

lemma sales_addSale: "sales (addSale e d s) = sales s @ [newSale e d]"
  by (simp add: addSale_def Let_def)

lemma sale_id_newSale: "sale_id (newSale e d) = ''SALE-'' @ string_of_nat (date_now e)"
  by (simp add: newSale_def)

lemma sales_addSales:
  "sales (addSales calls s) = sales s @ map (\<lambda>(e, d). newSale e d) calls"
  by (induction calls arbitrary: s) (auto simp: sales_addSale)

lemma ids_addSales:
  "map sale_id (sales (addSales calls s)) =
     map sale_id (sales s) @
     map (\<lambda>n. ''SALE-'' @ string_of_nat n) (map (\<lambda>c. date_now (fst c)) calls)"
  by (simp add: sales_addSales sale_id_newSale case_prod_beta comp_def)

lemma inj_sale_token: "inj_on (\<lambda>n. ''SALE-'' @ string_of_nat n) A"
  by (rule inj_onI) (simp add: string_of_nat_inj)

lemma fst_update_one:
  "fst (update_one i u ord) = (if order_id ord = i then merge_order ord u else ord)"
  by (simp add: update_one_def Let_def split: option.split)

lemma orders_updateOrder:
  "orders (updateOrder i u s) =
     map (\<lambda>ord. if order_id ord = i then merge_order ord u else ord) (orders s)"
  by (simp add: updateOrder_def Let_def fst_update_one)

lemma activity_updateOrder:
  "activity (updateOrder i u s) =
     activity s @ concat (map (\<lambda>ord. fst (snd (update_one i u ord))) (orders s))"
  by (simp add: updateOrder_def Let_def comp_def)


lemma update_one_other: "order_id ord \<noteq> i \<Longrightarrow> update_one i u ord = (ord, [], [])"
  by (simp add: update_one_def)



lemma sales_updateOrder: "sales (updateOrder i u s) = sales s"
  by (simp add: updateOrder_def Let_def)

lemma sales_addSale_payload:
  "sales (addSale_payload e p s) =
     (case data_items p of None \<Rightarrow> sales s | Some its \<Rightarrow> sales s @ [newSale e (with_items p its)])"
  by (simp add: addSale_payload_def sales_addSale split: option.split)

lemma createSaleFromOrder_free:
  assumes "order_id ord \<notin> saleCreationInProgress s"
  shows "sales (createSaleFromOrder e ord s) = sales (addSale_payload e (sale_of_order e ord) s)"
    and "orders (createSaleFromOrder e ord s) = map (mark_saleCreated (order_id ord)) (orders s)"
    and "timers (createSaleFromOrder e ord s) = timers s"
    and "saleCreationInProgress (createSaleFromOrder e ord s) = saleCreationInProgress s"
    and "activity (createSaleFromOrder e ord s) =
           activity s @ [(or_string (order_createdBy ord) ''system'', SALE_CREATED_FROM_ORDER,
                          Vente_creee (order_id ord))]"
  using assms
  by (simp_all add: createSaleFromOrder_def Let_def addSale_payload_def addSale_def
      logActivity_def split: option.split)

text \<open>
  \<open>createSaleFromOrder\<close> runs to its end without yielding, and its last statement takes
  the id out of the set again: the set is empty whenever a call starts, and the early
  return is never taken.
\<close>

lemma guard_kept:
  "saleCreationInProgress (createSaleFromOrder e ord s) = saleCreationInProgress s"
  by (cases "order_id ord \<in> saleCreationInProgress s")
    (simp_all add: createSaleFromOrder_free(4), simp add: createSaleFromOrder_def)

lemma guard_released:
  "saleCreationInProgress s = {} \<Longrightarrow> saleCreationInProgress (createSaleFromOrder e ord s) = {}"
  by (simp add: guard_kept)

lemma createSaleFromOrder_twice:
  assumes "saleCreationInProgress s = {}"
    and "order_items ord1 = Some its1" and "order_items ord2 = Some its2"
  shows "sales (createSaleFromOrder e2 ord2 (createSaleFromOrder e1 ord1 s)) =
     sales s @ [newSale e1 (with_items (sale_of_order e1 ord1) its1),
                newSale e2 (with_items (sale_of_order e2 ord2) its2)]"
  using assms
  by (simp add: createSaleFromOrder_free(1) guard_released sales_addSale_payload
      sale_of_order_def)






text \<open>
  No operation of either store changes the in-progress set between its start and its end,
  so every state reached from the initial one has the empty set of \<open>new Set()\<close>.
\<close>

lemma guard_untouched:
  "saleCreationInProgress (addOrder e orderData s) = saleCreationInProgress s"
  "saleCreationInProgress (deleteOrder rendered i s) = saleCreationInProgress s"
  "saleCreationInProgress (addSale e saleData s) = saleCreationInProgress s"
  "saleCreationInProgress (clearSales e s) = saleCreationInProgress s"
  by (simp_all add: addOrder_def deleteOrder_def addSale_def clearSales_def logActivity_def
      Let_def split: option.split)





text \<open>
  Two \<open>updateOrder(id, {status: 'completed'})\<close> calls in a row set one timer only: the
  second updater finds the status already \<open>completed\<close>. That is the test on the status,
  not the in-progress set.
\<close>

lemma repeated_completed_sets_one_timer:
  "timers (updateOrder ''ORD-5'' (set_status Completed)
            (updateOrder ''ORD-5'' (set_status Completed) store_A)) =
     [order_A\<lparr>order_status := Completed\<rparr>]"
  by (simp add: sample_defs store_defs Let_def)

section \<open>The claims\<close>

text \<open>
  C1. Two \<open>completed\<close> transitions of one order queued before any deferred derivation has
  run: the order goes pending \<open>\<rightarrow>\<close> completed \<open>\<rightarrow>\<close> processing \<open>\<rightarrow>\<close> completed in one turn,
  and \<open>saleCreated\<close> is still false at both transitions, so two timers are set. When
  both have run there are two derived sales, not one; \<open>saleCreated\<close> is true.
\<close>

theorem two_completed_transitions_two_sales:
  "(let s3 = updateOrder ''ORD-5'' (set_status Completed)
               (updateOrder ''ORD-5'' (set_status Processing)
                 (updateOrder ''ORD-5'' (set_status Completed) store_A));
        s5 = run_timer (at_ms 8) (run_timer (at_ms 7) s3)
    in length (timers s3) = 2 \<and> sales s3 = [] \<and>
       length (sales s5) = 2 \<and> timers s5 = [] \<and>
       map sale_total (sales s5) = [Num 18, Num 18] \<and>
       map order_saleCreated (orders s5) = [Some True])"
  by (simp add: sample_defs store_defs Let_def)




text \<open>
  C3. When the id is not in the in-progress set, \<open>createSaleFromOrder\<close> hands
  \<open>sale_of_order\<close> to \<open>addSale\<close> (as a record of the declared type when the order's
  \<open>items\<close> is an array), and that payload has the order's items, its \<open>total\<close>
  as subtotal, its \<open>finalAmount\<close> as total, \<open>discount || 0\<close>,
  \<open>advancePayment || finalAmount\<close>, change \<open>0\<close>, \<open>createdBy || 'System'\<close> and the fixed
  store location.
\<close>

theorem createSaleFromOrder_payload:
  assumes "order_id ord \<notin> saleCreationInProgress s"
  shows "sales (createSaleFromOrder e ord s) = sales (addSale_payload e (sale_of_order e ord) s) \<and>
         (\<forall>its. order_items ord = Some its \<longrightarrow>
            sales (createSaleFromOrder e ord s) =
              sales (addSale e (with_items (sale_of_order e ord) its) s)) \<and>
         data_items (sale_of_order e ord) = order_items ord \<and>
         data_subtotal (sale_of_order e ord) = order_total ord \<and>
         data_total (sale_of_order e ord) = order_finalAmount ord \<and>
         data_discount (sale_of_order e ord) =
           (if truthy (order_discount ord) then order_discount ord else Num 0) \<and>
         data_paymentReceived (sale_of_order e ord) =
           (if truthy (order_advancePayment ord) then order_advancePayment ord
            else order_finalAmount ord) \<and>
         data_change (sale_of_order e ord) = Num 0 \<and>
         data_cashier (sale_of_order e ord) =
           (case order_createdBy ord of
              None \<Rightarrow> ''System''
            | Some c \<Rightarrow> if c = '''' then ''System'' else c) \<and>
         data_storeLocation (sale_of_order e ord) = ''UP2DATE FASHION''"
  using assms
  by (simp add: createSaleFromOrder_free(1) sales_addSale sales_addSale_payload
      sale_of_order_def or_number_def or_string_def)

theorem createSaleFromOrder_payload_witness:
  "order_id order_A \<notin> saleCreationInProgress store_A \<and>
   data_total (sale_of_order (at_ms 7) order_A) = Num 18 \<and>
   data_discount (sale_of_order (at_ms 7) order_A) = Num 2 \<and>
   data_paymentReceived (sale_of_order (at_ms 7) order_A) = Num 18 \<and>
   data_change (sale_of_order (at_ms 7) order_A) = Num 0 \<and>
   data_cashier (sale_of_order (at_ms 7) order_A) = ''System'' \<and>
   length (sales (createSaleFromOrder (at_ms 7) order_A store_A)) = 1"
proof -
  have free: "order_id order_A \<notin> saleCreationInProgress store_A"
    by (simp add: sample_defs)
  from createSaleFromOrder_payload [OF free, of "at_ms 7"] free
  show ?thesis
    by (simp add: sample_defs sales_addSale sales_addSale_payload sale_of_order_def)
qed

text \<open>
  C4. \<open>addSale\<close> appends one record. Its \<open>subtotal\<close>, \<open>total\<close>, \<open>discount\<close>,
  \<open>paymentReceived\<close> and \<open>change\<close> are the input's when truthy and \<open>0\<close> otherwise, and so
  are \<open>quantity\<close> and \<open>price\<close> of each item; \<open>cashier\<close>, \<open>storeLocation\<close> and each
  item's \<open>productId\<close> are the input's. This does not depend on the write to storage.
\<close>

theorem addSale_defaults:
  "sales (addSale e d s) = sales s @ [newSale e d] \<and>
   sale_subtotal (newSale e d) = (if truthy (data_subtotal d) then data_subtotal d else Num 0) \<and>
   sale_total (newSale e d) = (if truthy (data_total d) then data_total d else Num 0) \<and>
   sale_discount (newSale e d) = (if truthy (data_discount d) then data_discount d else Num 0) \<and>
   sale_paymentReceived (newSale e d) =
     (if truthy (data_paymentReceived d) then data_paymentReceived d else Num 0) \<and>
   sale_change (newSale e d) = (if truthy (data_change d) then data_change d else Num 0) \<and>
   length (sale_items (newSale e d)) = length (data_items d) \<and>
   (\<forall>k < length (data_items d).
      quantity (sale_items (newSale e d) ! k) =
        (if truthy (quantity (data_items d ! k)) then quantity (data_items d ! k) else Num 0) \<and>
      price (sale_items (newSale e d) ! k) =
        (if truthy (price (data_items d ! k)) then price (data_items d ! k) else Num 0) \<and>
      productId (sale_items (newSale e d) ! k) = productId (data_items d ! k)) \<and>
   sale_cashier (newSale e d) = data_cashier d \<and>
   sale_storeLocation (newSale e d) = data_storeLocation d"
  by (simp add: addSale_def Let_def newSale_def or_number_def default_item_def)

theorem addSale_defaults_witness:
  "map sale_subtotal (sales (addSale (at_ms 7) sale_data_A empty_store)) = [Num 20] \<and>
   map sale_discount (sales (addSale (at_ms 7) sale_data_A empty_store)) = [Num 0] \<and>
   map sale_paymentReceived (sales (addSale (at_ms 7) sale_data_A empty_store)) = [Num 0] \<and>
   concat (map sale_items (sales (addSale (at_ms 7) sale_data_A empty_store))) =
     [\<lparr>productId = ''p1'', quantity = Num 2, price = Num 0\<rparr>] \<and>
   map sale_cashier (sales (addSale (at_ms 7) sale_data_A empty_store)) = [''Ann'']"
  using addSale_defaults [of "at_ms 7" sale_data_A empty_store]
  by (simp add: sample_defs newSale_def default_item_def or_number_def)

text \<open>
  C5 (amended). The id of a sale is \<open>SALE-\<close> followed by the clock reading of its
  \<open>addSale\<close> call. After a run of \<open>addSale\<close> calls the ids of the sales sequence are
  pairwise distinct exactly when the ids it started with are, the clock readings of the
  calls are pairwise distinct, and no id it started with is the token of one of the
  readings.
\<close>

theorem addSale_ids_distinct:
  "distinct (map sale_id (sales (addSales calls s))) \<longleftrightarrow>
     distinct (map sale_id (sales s)) \<and>
     distinct (map (\<lambda>c. date_now (fst c)) calls) \<and>
     (\<forall>c \<in> set calls. ''SALE-'' @ string_of_nat (date_now (fst c)) \<notin> sale_id ` set (sales s))"
proof -
  define token where "token = (\<lambda>n. ''SALE-'' @ string_of_nat n)"
  define readings where "readings = map (\<lambda>c. date_now (fst c)) calls"
  have ids: "map sale_id (sales (addSales calls s)) = map sale_id (sales s) @ map token readings"
    by (simp add: ids_addSales token_def readings_def)
  have "inj_on token (set readings)"
    unfolding token_def by (rule inj_sale_token)
  then have new: "distinct (map token readings) = distinct readings"
    by (simp add: distinct_map)
  have apart: "set (map sale_id (sales s)) \<inter> set (map token readings) = {} \<longleftrightarrow>
      (\<forall>c \<in> set calls. token (date_now (fst c)) \<notin> sale_id ` set (sales s))"
    unfolding readings_def by (simp add: disjoint_iff image_iff) blast
  have "distinct (map sale_id (sales (addSales calls s))) \<longleftrightarrow>
      distinct (map sale_id (sales s)) \<and> distinct readings \<and>
      (\<forall>c \<in> set calls. token (date_now (fst c)) \<notin> sale_id ` set (sales s))"
    unfolding ids distinct_append new apart by (rule refl)
  then show ?thesis
    unfolding token_def readings_def .
qed

theorem addSale_ids_distinct_witness:
  "distinct (map sale_id (sales (addSales [(at_ms 7, sale_data_A), (at_ms 8, sale_data_A)] empty_store)))
   \<and> sale_id ` set (sales empty_store) = {}"
  using addSale_ids_distinct [of "[(at_ms 7, sale_data_A), (at_ms 8, sale_data_A)]" empty_store]
  by (simp add: sample_defs)

text \<open>
  C5 as stated fails: two \<open>addSale\<close> calls that read the same millisecond give both
  records the same id.
\<close>

theorem addSale_same_millisecond_same_id:
  "map sale_id (sales (addSale (at_ms 7) sale_data_A (addSale (at_ms 7) sale_data_A empty_store)))
     = [''SALE-7'', ''SALE-7'']"
  by (simp add: sample_defs addSale_def newSale_def Let_def string_of_nat.simps digit_char_def)

text \<open>
  C6 (amended). \<open>addOrder\<close> appends exactly one order: it has the id \<open>ORD-\<close> followed by
  the clock reading, the timestamp of the call as \<open>orderDate\<close>, \<open>saleCreated = false\<close>
  whatever the input says, and the input's value in every other field.
  \<open>getOrderById\<close> with that id then returns the first order carrying it: the new record
  when no order of the store had that id before, the older order otherwise.
\<close>

theorem addOrder_appends:
  "(let s' = addOrder e orderData s; new = last (orders s') in
      orders s' = orders s @ [new] \<and>
      order_id new = ''ORD-'' @ string_of_nat (date_now e) \<and>
      order_orderDate new = iso_string e \<and>
      order_saleCreated new = Some False \<and>
      new\<lparr>order_id := order_id orderData, order_orderDate := order_orderDate orderData,
          order_saleCreated := order_saleCreated orderData\<rparr> = orderData \<and>
      getOrderById (orders s') (order_id new) =
        (case getOrderById (orders s) (order_id new) of None \<Rightarrow> Some new | Some old \<Rightarrow> Some old) \<and>
      ((\<forall>ord \<in> set (orders s). order_id ord \<noteq> order_id new) \<longrightarrow>
         getOrderById (orders s') (order_id new) = Some new))"
proof -
  let ?new = "orderData\<lparr>order_id := ''ORD-'' @ string_of_nat (date_now e),
      order_orderDate := iso_string e, order_saleCreated := Some False\<rparr>"
  have os: "orders (addOrder e orderData s) = orders s @ [?new]"
    by (simp add: addOrder_def logActivity_def Let_def)
  have find_app: "find P (xs @ [x]) = (case find P xs of None \<Rightarrow> (if P x then Some x else None) | Some y \<Rightarrow> Some y)"
    for P :: "order \<Rightarrow> bool" and xs x
    by (induction xs) simp_all
  have none: "(\<forall>ord \<in> set (orders s). order_id ord \<noteq> i) \<Longrightarrow> find (\<lambda>ord. order_id ord = i) (orders s) = None"
    for i by (simp add: find_None_iff)
  show ?thesis
    unfolding Let_def os
    by (auto simp: getOrderById_def find_app none split: option.splits)
qed

theorem addOrder_appends_witness:
  "orders (addOrder (at_ms 7) (order_A\<lparr>order_saleCreated := Some True\<rparr>) store_A) =
     [order_A, order_A\<lparr>order_id := ''ORD-7'', order_orderDate := ''T+7''\<rparr>] \<and>
   getOrderById (orders (addOrder (at_ms 7) (order_A\<lparr>order_saleCreated := Some True\<rparr>) store_A))
     ''ORD-7'' = Some (order_A\<lparr>order_id := ''ORD-7'', order_orderDate := ''T+7''\<rparr>)"
  using addOrder_appends [of "at_ms 7" "order_A\<lparr>order_saleCreated := Some True\<rparr>" store_A]
  by (simp add: sample_defs store_defs Let_def string_of_nat.simps digit_char_def)

text \<open>
  C6 as stated fails: an order added in the millisecond in which \<open>ORD-5\<close> was made gets
  the id \<open>ORD-5\<close> too, and \<open>getOrderById\<close> returns the older order.
\<close>

theorem addOrder_same_millisecond:
  "order_id (last (orders (addOrder (at_ms 5) (order_A\<lparr>order_customerName := ''B''\<rparr>) store_A)))
     = ''ORD-5'' \<and>
   getOrderById (orders (addOrder (at_ms 5) (order_A\<lparr>order_customerName := ''B''\<rparr>) store_A))
     ''ORD-5'' = Some order_A \<and>
   getOrderById (orders (addOrder (at_ms 5) (order_A\<lparr>order_customerName := ''B''\<rparr>) store_A))
     ''ORD-5'' \<noteq>
   Some (last (orders (addOrder (at_ms 5) (order_A\<lparr>order_customerName := ''B''\<rparr>) store_A)))"
  by (simp add: sample_defs store_defs Let_def string_of_nat.simps digit_char_def)




text \<open>
  C8. After \<open>clearSales\<close> the sales sequence is empty, and \<open>getSaleById\<close> on it finds no
  sale under any id, the ids of the sales it held before included; this does not depend
  on the removal from storage.
\<close>

theorem clearSales_empties:
  "sales (clearSales e s) = [] \<and>
   (\<forall>i. getSaleById (sales (clearSales e s)) i = None) \<and>
   (\<forall>x \<in> set (sales s). getSaleById (sales (clearSales e s)) (sale_id x) = None)"
  by (simp add: clearSales_def getSaleById_def)

theorem clearSales_empties_witness:
  "getSaleById (sales (addSale (at_ms 7) sale_data_A empty_store)) ''SALE-7'' \<noteq> None \<and>
   getSaleById (sales (clearSales (at_ms 8) (addSale (at_ms 7) sale_data_A empty_store))) ''SALE-7''
     = None"
  using clearSales_empties [of "at_ms 8" "addSale (at_ms 7) sale_data_A empty_store"]
  by (simp add: sample_defs store_defs Let_def string_of_nat.simps digit_char_def)

text \<open>
  C9. \<open>updateOrder i u\<close> keeps the length and the order of the sequence, leaves every
  order whose id is not \<open>i\<close> as it is, and puts the merge of \<open>u\<close> onto it in the place of
  every order whose id is \<open>i\<close>. In the merge a key present in \<open>u\<close> has \<open>u\<close>'s value and
  every other field has the order's.
\<close>

theorem updateOrder_merges:
  "orders (updateOrder i u s) =
     map (\<lambda>ord. if order_id ord = i then merge_order ord u else ord) (orders s) \<and>
   length (orders (updateOrder i u s)) = length (orders s) \<and>
   (\<forall>k < length (orders s).
      orders (updateOrder i u s) ! k =
        (if order_id (orders s ! k) = i then merge_order (orders s ! k) u else orders s ! k)) \<and>
   (\<forall>ord.
      order_id (merge_order ord u) = (case upd_id u of None \<Rightarrow> order_id ord | Some v \<Rightarrow> v) \<and>
      order_customerName (merge_order ord u) =
        (case upd_customerName u of None \<Rightarrow> order_customerName ord | Some v \<Rightarrow> v) \<and>
      order_contactNumber (merge_order ord u) =
        (case upd_contactNumber u of None \<Rightarrow> order_contactNumber ord | Some v \<Rightarrow> v) \<and>
      order_email (merge_order ord u) =
        (case upd_email u of None \<Rightarrow> order_email ord | Some v \<Rightarrow> v) \<and>
      order_deliveryAddress (merge_order ord u) =
        (case upd_deliveryAddress u of None \<Rightarrow> order_deliveryAddress ord | Some v \<Rightarrow> v) \<and>
      order_items (merge_order ord u) =
        (case upd_items u of None \<Rightarrow> order_items ord | Some v \<Rightarrow> v) \<and>
      order_subtotal (merge_order ord u) =
        (case upd_subtotal u of None \<Rightarrow> order_subtotal ord | Some v \<Rightarrow> v) \<and>
      order_total (merge_order ord u) =
        (case upd_total u of None \<Rightarrow> order_total ord | Some v \<Rightarrow> v) \<and>
      order_discount (merge_order ord u) =
        (case upd_discount u of None \<Rightarrow> order_discount ord | Some v \<Rightarrow> v) \<and>
      order_status (merge_order ord u) =
        (case upd_status u of None \<Rightarrow> order_status ord | Some v \<Rightarrow> v) \<and>
      order_paymentMethod (merge_order ord u) =
        (case upd_paymentMethod u of None \<Rightarrow> order_paymentMethod ord | Some v \<Rightarrow> v) \<and>
      order_orderDate (merge_order ord u) =
        (case upd_orderDate u of None \<Rightarrow> order_orderDate ord | Some v \<Rightarrow> v) \<and>
      order_notes (merge_order ord u) =
        (case upd_notes u of None \<Rightarrow> order_notes ord | Some v \<Rightarrow> v) \<and>
      order_createdBy (merge_order ord u) =
        (case upd_createdBy u of None \<Rightarrow> order_createdBy ord | Some v \<Rightarrow> v) \<and>
      order_finalAmount (merge_order ord u) =
        (case upd_finalAmount u of None \<Rightarrow> order_finalAmount ord | Some v \<Rightarrow> v) \<and>
      order_advancePayment (merge_order ord u) =
        (case upd_advancePayment u of None \<Rightarrow> order_advancePayment ord | Some v \<Rightarrow> v) \<and>
      order_saleCreated (merge_order ord u) =
        (case upd_saleCreated u of None \<Rightarrow> order_saleCreated ord | Some v \<Rightarrow> v))"
proof -
  have fields: "order_id (merge_order ord u) = overwrite (upd_id u) (order_id ord)"
    "order_customerName (merge_order ord u) = overwrite (upd_customerName u) (order_customerName ord)"
    "order_contactNumber (merge_order ord u) = overwrite (upd_contactNumber u) (order_contactNumber ord)"
    "order_email (merge_order ord u) = overwrite (upd_email u) (order_email ord)"
    "order_deliveryAddress (merge_order ord u) = overwrite (upd_deliveryAddress u) (order_deliveryAddress ord)"
    "order_items (merge_order ord u) = overwrite (upd_items u) (order_items ord)"
    "order_subtotal (merge_order ord u) = overwrite (upd_subtotal u) (order_subtotal ord)"
    "order_total (merge_order ord u) = overwrite (upd_total u) (order_total ord)"
    "order_discount (merge_order ord u) = overwrite (upd_discount u) (order_discount ord)"
    "order_status (merge_order ord u) = overwrite (upd_status u) (order_status ord)"
    "order_paymentMethod (merge_order ord u) = overwrite (upd_paymentMethod u) (order_paymentMethod ord)"
    "order_orderDate (merge_order ord u) = overwrite (upd_orderDate u) (order_orderDate ord)"
    "order_notes (merge_order ord u) = overwrite (upd_notes u) (order_notes ord)"
    "order_createdBy (merge_order ord u) = overwrite (upd_createdBy u) (order_createdBy ord)"
    "order_finalAmount (merge_order ord u) = overwrite (upd_finalAmount u) (order_finalAmount ord)"
    "order_advancePayment (merge_order ord u) = overwrite (upd_advancePayment u) (order_advancePayment ord)"
    "order_saleCreated (merge_order ord u) = overwrite (upd_saleCreated u) (order_saleCreated ord)"
    for ord
    by (simp_all add: merge_order_def)
  show ?thesis
    unfolding fields overwrite_def by (simp add: orders_updateOrder)
qed

theorem updateOrder_merges_witness:
  "orders (updateOrder ''ORD-5'' (set_status Processing)
     (store_A\<lparr>orders := [order_A, order_A\<lparr>order_id := ''ORD-6''\<rparr>]\<rparr>)) =
   [order_A\<lparr>order_status := Processing\<rparr>, order_A\<lparr>order_id := ''ORD-6''\<rparr>]"
  using updateOrder_merges [of "''ORD-5''" "set_status Processing"
      "store_A\<lparr>orders := [order_A, order_A\<lparr>order_id := ''ORD-6''\<rparr>]\<rparr>"]
  by (simp add: sample_defs merge_order_def overwrite_def)

text \<open>
  C10. \<open>updateOrder\<close> with an id that no order of the sequence has changes nothing: the
  sequence, the activity log and the pending timers are what they were.
\<close>

theorem updateOrder_unknown_id:
  assumes "i \<notin> order_id ` set (orders s)"
  shows "orders (updateOrder i u s) = orders s \<and>
         activity (updateOrder i u s) = activity s \<and>
         timers (updateOrder i u s) = timers s \<and>
         updateOrder i u s = s"
proof -
  have same: "update_one i u ord = (ord, [], [])" if "ord \<in> set (orders s)" for ord
    using that assms by (intro update_one_other) auto
  have o: "map (\<lambda>ord. fst (update_one i u ord)) (orders s) = orders s"
    by (rule map_idI) (simp add: same)
  have a: "concat (map (\<lambda>ord. fst (snd (update_one i u ord))) (orders s)) = []"
    by (simp add: same)
  have t: "concat (map (\<lambda>ord. snd (snd (update_one i u ord))) (orders s)) = []"
    by (simp add: same)
  show ?thesis
    by (simp add: updateOrder_def Let_def comp_def o a t)
qed

theorem updateOrder_unknown_id_witness:
  "''ORD-6'' \<notin> order_id ` set (orders store_A) \<and>
   updateOrder ''ORD-6'' (set_status Completed) store_A = store_A"
proof -
  have absent: "''ORD-6'' \<notin> order_id ` set (orders store_A)"
    by (simp add: sample_defs)
  from updateOrder_unknown_id [OF absent, of "set_status Completed"] absent
  show ?thesis by simp
qed

end
